theory Spec2Isabelle
  imports Main
begin

section \<open>Data model of yoot (src/yoot/task.py, src/yoot/experiment.py)\<close>

text \<open>
  A Python \<^verbatim>\<open>dict[str, Any]\<close> is an association list: Python dictionaries iterate in
  insertion order, and \<^verbatim>\<open>ExperimentSchema.validate\<close> raises at the first offending
  entry it meets. The values (\<^verbatim>\<open>Any\<close>) are a type parameter.
\<close>

type_synonym 'v pydict = "(string \<times> 'v) list"

text \<open>
  The messages of the exceptions the code raises. Each constructor stands for one
  f-string of the source and carries the values interpolated into it:
  \<^item> \<open>InvalidFunctionDefinition f\<close>: \<^verbatim>\<open>f"Invalid function definition: {schema.func}"\<close>
  \<^item> \<open>InvalidTaskSchema\<close>: \<^verbatim>\<open>"Invalid task schema."\<close>
  \<^item> \<open>MissingTracker n\<close>: \<^verbatim>\<open>f"Task {task.name} is missing the 'tracker' parameter."\<close>
  \<^item> \<open>ParamsNotAccepted n\<close>:
    \<^verbatim>\<open>f"Task {task.name} does not accept parameters but Task definition defines them."\<close>
  \<^item> \<open>ParamsRequired n\<close>:
    \<^verbatim>\<open>f"Task {task.name} requires parameters but Task definition does not define them."\<close>
  \<^item> \<open>ParamsInvalid n\<close>: \<^verbatim>\<open>f"Task {task.name} parameters are invalid."\<close>
  \<^item> \<open>InputsMismatch n\<close>: \<^verbatim>\<open>f"Task {task.name} inputs do not match the Task definition."\<close>
  \<^item> \<open>MissingOutputs s\<close>: \<^verbatim>\<open>f"Task is missing expected outputs: {', '.join(missing_outputs)}."\<close>
  \<^item> \<open>UnexpectedOutputs s\<close>: \<^verbatim>\<open>f"Task has unexpected outputs: {', '.join(extra_outputs)}."\<close>
  \<^item> \<open>NoInputs n\<close>: \<^verbatim>\<open>f"Task {name} has no inputs."\<close>
  \<^item> \<open>NoOutputs n\<close>: \<^verbatim>\<open>f"Task {name} has no outputs."\<close>
  \<^item> \<open>ParamNotInput n p\<close>: \<^verbatim>\<open>f"Task {name} has a parameter {param} that is not an input."\<close>

  The two messages that join a set keep the set: the order in which Python iterates a
  set of strings is not fixed by the language.
\<close>

datatype message =
    InvalidFunctionDefinition string
  | InvalidTaskSchema
  | MissingTracker string
  | ParamsNotAccepted string
  | ParamsRequired string
  | ParamsInvalid string
  | InputsMismatch string
  | MissingOutputs "string set"
  | UnexpectedOutputs "string set"
  | NoInputs string
  | NoOutputs string
  | ParamNotInput string string

text \<open>
  The exceptions: \<^verbatim>\<open>TaskDefinitionError\<close> (src/yoot/exceptions.py), the builtin
  \<^verbatim>\<open>ValueError\<close> raised by the experiment schema, the builtin \<^verbatim>\<open>NameError\<close>
  Python raises when a name that was never bound is read (its argument is that name),
  and the builtin \<^verbatim>\<open>KeyError\<close> of \<^verbatim>\<open>set.remove\<close> (its argument is the element).
\<close>

datatype error =
    TaskDefinitionError message
  | ValueError message
  | NameError string
  | KeyError string

text \<open>
  \<^verbatim>\<open>class TaskMetadata(BaseModel)\<close>. The type of \<open>params\<close> is a parameter of the
  record, because \<^verbatim>\<open>ValidatedTaskDefinition\<close> overrides the field with the parsed
  parameter object: the raw classes use \<open>'v pydict\<close> there.
\<close>

record 'p TaskMetadata =
  inputs :: "string set"
  outputs :: "string set"
  params :: "'p option"

text \<open>\<^verbatim>\<open>class TaskSchema(TaskMetadata)\<close>\<close>

record 'p TaskSchema = "'p TaskMetadata" +
  func :: string

text \<open>\<^verbatim>\<open>class ValidatedTaskSchema(TaskMetadata)\<close>; a path is the string it was built from.\<close>

record 'p ValidatedTaskSchema = "'p TaskMetadata" +
  "file" :: string
  name :: string

text \<open>
  \<^verbatim>\<open>class Task(BaseModel)\<close>. The validator reads one thing of the callable
  \<^verbatim>\<open>func\<close>: the names of its formal parameters
  (\<^verbatim>\<open>Signature.from_callable(task.func).parameters\<close>), so the callable is the list of
  these names. \<^verbatim>\<open>param_schema\<close> is a pydantic model class or \<^verbatim>\<open>None\<close>; the
  validator uses one thing of the class, \<^verbatim>\<open>parse_obj\<close>, which returns an instance or
  raises \<^verbatim>\<open>ValidationError\<close>: the class is that function, \<open>None\<close> being the
  \<^verbatim>\<open>ValidationError\<close>.
\<close>

record ('v, 'p) Task =
  name :: string
  func :: "string list"
  param_schema :: "('v pydict \<Rightarrow> 'p option) option"

text \<open>
  \<^verbatim>\<open>class TaskDefinition(TaskMetadata)\<close>, and
  \<^verbatim>\<open>class ValidatedTaskDefinition[TParams](TaskDefinition)\<close>, which is the same class with
  \<^verbatim>\<open>params: TParams | None\<close>.
\<close>

record 'p TaskDefinition = "'p TaskMetadata" +
  name :: string

type_synonym 'p ValidatedTaskDefinition = "'p TaskDefinition"

text \<open>\<^verbatim>\<open>class ExperimentSchema(BaseModel)\<close>\<close>

record 'v ExperimentSchema =
  tasks :: "(string \<times> 'v pydict TaskSchema) list"


section \<open>Python primitives the code uses\<close>

text \<open>
  \<^verbatim>\<open>s.split(sep)\<close> for a separator of one character: the pieces between the
  occurrences of the separator, empty pieces included. The last case of the inner
  \<open>case\<close> is never reached (the result is never empty).
\<close>

fun str_split :: "char \<Rightarrow> string \<Rightarrow> string list" where
  "str_split sep [] = [[]]"
| "str_split sep (c # cs) =
     (if c = sep then [] # str_split sep cs
      else (case str_split sep cs of
              w # ws \<Rightarrow> (c # w) # ws
            | [] \<Rightarrow> [[c]]))"

text \<open>
  The truth value Python gives \<^verbatim>\<open>self.params\<close> in a condition: \<^verbatim>\<open>None\<close> and the empty
  dictionary are false.
\<close>

fun truthy :: "'v pydict option \<Rightarrow> bool" where
  "truthy None = False"
| "truthy (Some []) = False"
| "truthy (Some (kv # kvs)) = True"

text \<open>\<^verbatim>\<open>outputs.keys()\<close> and the iteration \<^verbatim>\<open>for param in task.params\<close>.\<close>

definition keys :: "'v pydict \<Rightarrow> string list" where
  "keys d = map fst d"


section \<open>Function references: \<^verbatim>\<open>ValidatedTaskSchema.from_unvalidated\<close> and
  \<^verbatim>\<open>TaskDefinition._validate_schema\<close>\<close>

text \<open>The keyword arguments of a constructor call, by the kind of value passed.\<close>

datatype 'v kwarg =
    PathArg string
  | StrArg string
  | SetArg "string set"
  | DictArg "'v pydict option"

text \<open>\<^verbatim>\<open>schema.model_dump()\<close>: the fields of a \<^verbatim>\<open>TaskSchema\<close> by name.\<close>

definition model_dump :: "'v pydict TaskSchema \<Rightarrow> (string \<times> 'v kwarg) list" where
  "model_dump schema =
     [(''inputs'', SetArg (inputs schema)),
      (''outputs'', SetArg (outputs schema)),
      (''params'', DictArg (params schema)),
      (''func'', StrArg (TaskSchema.func schema))]"

text \<open>
  The constructor pydantic generates for \<^verbatim>\<open>ValidatedTaskSchema\<close>, whose fields are
  \<^verbatim>\<open>inputs\<close>, \<^verbatim>\<open>outputs\<close> (default: the empty set), \<^verbatim>\<open>params\<close> (default
  \<^verbatim>\<open>None\<close>), \<^verbatim>\<open>file: FilePath\<close> and \<^verbatim>\<open>name: str\<close> (both required). pydantic is a
  library the repository imports: a keyword that names no field is ignored (the model
  sets no \<^verbatim>\<open>extra\<close> policy), a required field with no keyword or a value of the wrong
  type is a \<^verbatim>\<open>ValidationError\<close> (\<open>None\<close> here), and a \<^verbatim>\<open>FilePath\<close> must be an
  existing file. \<open>is_file\<close> is the file system: which paths are existing files.
\<close>

definition ValidatedTaskSchema_init ::
  "(string \<Rightarrow> bool) \<Rightarrow> (string \<times> 'v kwarg) list \<Rightarrow> 'v pydict ValidatedTaskSchema option" where
  "ValidatedTaskSchema_init is_file kwargs =
     (case (map_of kwargs ''file'', map_of kwargs ''name'') of
        (Some (PathArg p), Some (StrArg n)) \<Rightarrow>
          (case (case map_of kwargs ''inputs'' of
                   None \<Rightarrow> Some {} | Some (SetArg s) \<Rightarrow> Some s | Some _ \<Rightarrow> None,
                 case map_of kwargs ''outputs'' of
                   None \<Rightarrow> Some {} | Some (SetArg s) \<Rightarrow> Some s | Some _ \<Rightarrow> None,
                 case map_of kwargs ''params'' of
                   None \<Rightarrow> Some None | Some (DictArg d) \<Rightarrow> Some d | Some _ \<Rightarrow> None) of
             (Some i, Some oo, Some d) \<Rightarrow>
               if is_file p
               then Some \<lparr>inputs = i, outputs = oo, params = d,
                          file = p, ValidatedTaskSchema.name = n\<rparr>
               else None
           | _ \<Rightarrow> None)
      | _ \<Rightarrow> None)"

text \<open>
  \<^verbatim>\<open>ValidatedTaskSchema.from_unvalidated\<close> (task.py, lines 27-38): split the reference
  at every colon, refuse anything but two pieces, then call the constructor with the
  keywords \<^verbatim>\<open>file\<close>, \<^verbatim>\<open>func_name\<close> and the dumped fields of the schema; a
  \<^verbatim>\<open>ValidationError\<close> becomes a \<^verbatim>\<open>TaskDefinitionError\<close>.
\<close>

definition from_unvalidated ::
  "(string \<Rightarrow> bool) \<Rightarrow> 'v pydict TaskSchema \<Rightarrow> error + 'v pydict ValidatedTaskSchema" where
  "from_unvalidated is_file schema =
     (case str_split CHR '':'' (TaskSchema.func schema) of
        [file_part, func_name] \<Rightarrow>
          (case ValidatedTaskSchema_init is_file
                  ((''file'', PathArg file_part) # (''func_name'', StrArg func_name)
                     # model_dump schema) of
             Some v \<Rightarrow> Inr v
           | None \<Rightarrow> Inl (TaskDefinitionError InvalidTaskSchema))
      | _ \<Rightarrow> Inl (TaskDefinitionError (InvalidFunctionDefinition (TaskSchema.func schema))))"

text \<open>
  \<^verbatim>\<open>TaskDefinition._validate_schema\<close> (task.py, lines 69-80): the same split and the
  same refusal; then line 76 reads the name \<^verbatim>\<open>file_path\<close>, which nothing binds (the
  pieces are bound to \<^verbatim>\<open>file\<close> and \<^verbatim>\<open>func_name\<close>), so Python raises
  \<^verbatim>\<open>NameError\<close> before anything is loaded. The result type is that of the callable
  the last line would return, as \<^verbatim>\<open>Task\<close> models it.
\<close>

definition validate_schema ::
  "'p TaskDefinition \<Rightarrow> 'v pydict TaskSchema \<Rightarrow> error + string list" where
  "validate_schema self schema =
     (case str_split CHR '':'' (TaskSchema.func schema) of
        [file_part, func_name] \<Rightarrow> Inl (NameError ''file_path'')
      | _ \<Rightarrow> Inl (TaskDefinitionError (InvalidFunctionDefinition (TaskSchema.func schema))))"


section \<open>\<^verbatim>\<open>TaskDefinition.validate\<close> (task.py, lines 82-123)\<close>

text \<open>
  The checks in the order of the source, each \<^verbatim>\<open>raise\<close> a result \<open>Inl\<close>. The
  argument \<^verbatim>\<open>schema\<close> is never read by the source. A class is true in a Python
  condition, so \<^verbatim>\<open>task.param_schema\<close> as a condition is \<open>param_schema task \<noteq> None\<close>.
  The \<open>case\<close> on the pair never reaches its last branch: the condition before it
  makes both components \<open>Some\<close>.
\<close>

definition TaskDefinition_validate ::
  "'v pydict TaskDefinition \<Rightarrow> ('v, 'p) Task \<Rightarrow> 'v pydict TaskSchema
     \<Rightarrow> error + 'p ValidatedTaskDefinition" where
  "TaskDefinition_validate self task schema =
     (let arg_names = set (Task.func task) in
      if ''tracker'' \<notin> arg_names
      then Inl (TaskDefinitionError (MissingTracker (Task.name task)))
      else
        let arg_names = arg_names - {''tracker''} in
        if truthy (params self) \<and> param_schema task = None
        then Inl (TaskDefinitionError (ParamsNotAccepted (Task.name task)))
        else if params self = None \<and> param_schema task \<noteq> None
        then Inl (TaskDefinitionError (ParamsRequired (Task.name task)))
        else
          (case (if truthy (params self) \<and> param_schema task \<noteq> None
                 then (case (param_schema task, params self) of
                         (Some parse_obj, Some d) \<Rightarrow>
                           (case parse_obj d of
                              Some p \<Rightarrow> Inr (Some p)
                            | None \<Rightarrow> Inl (TaskDefinitionError (ParamsInvalid (Task.name task))))
                       | _ \<Rightarrow> Inr None)
                 else Inr None) of
             Inl e \<Rightarrow> Inl e
           | Inr parsed \<Rightarrow>
               let arg_names = arg_names - {''params''} in
               if arg_names \<noteq> inputs self
               then Inl (TaskDefinitionError (InputsMismatch (Task.name task)))
               else Inr \<lparr>inputs = inputs self, outputs = outputs self, params = parsed,
                         TaskDefinition.name = TaskDefinition.name self\<rparr>))"


section \<open>\<^verbatim>\<open>ValidatedTaskDefinition.validate_outputs\<close> (task.py, lines 129-143)\<close>

definition validate_outputs :: "'p ValidatedTaskDefinition \<Rightarrow> 'v pydict \<Rightarrow> error + unit" where
  "validate_outputs self outs =
     (let actual_outputs_set = set (keys outs);
          missing_outputs = outputs self - actual_outputs_set;
          extra_outputs = actual_outputs_set - outputs self in
      if missing_outputs \<noteq> {}
      then Inl (TaskDefinitionError (MissingOutputs missing_outputs))
      else if extra_outputs \<noteq> {}
      then Inl (TaskDefinitionError (UnexpectedOutputs extra_outputs))
      else Inr ())"


section \<open>\<^verbatim>\<open>ExperimentSchema.validate\<close> (experiment.py, lines 14-23)\<close>

text \<open>The inner loop \<^verbatim>\<open>for param in task.params\<close>, over the keys in order.\<close>

fun check_params :: "string \<Rightarrow> string set \<Rightarrow> string list \<Rightarrow> error + unit" where
  "check_params n ins [] = Inr ()"
| "check_params n ins (param # rest) =
     (if param \<notin> ins then Inl (ValueError (ParamNotInput n param))
      else check_params n ins rest)"

text \<open>The body of the outer loop, for one entry of \<^verbatim>\<open>self.tasks.items()\<close>.\<close>

definition check_task :: "string \<Rightarrow> 'v pydict TaskSchema \<Rightarrow> error + unit" where
  "check_task n task =
     (if inputs task = {} then Inl (ValueError (NoInputs n))
      else if outputs task = {} then Inl (ValueError (NoOutputs n))
      else if truthy (params task)
      then (case params task of
              Some d \<Rightarrow> check_params n (inputs task) (keys d)
            | None \<Rightarrow> Inr ())
      else Inr ())"

text \<open>The outer loop: the first entry that raises ends the pass.\<close>

fun check_tasks :: "(string \<times> 'v pydict TaskSchema) list \<Rightarrow> error + unit" where
  "check_tasks [] = Inr ()"
| "check_tasks ((n, task) # rest) =
     (case check_task n task of
        Inl e \<Rightarrow> Inl e
      | Inr u \<Rightarrow> check_tasks rest)"

definition ExperimentSchema_validate :: "'v ExperimentSchema \<Rightarrow> error + unit" where
  "ExperimentSchema_validate self = check_tasks (tasks self)"


section \<open>\<^verbatim>\<open>TaskDefinition.validate\<close> with its effects\<close>

text \<open>
  A second model of \<^verbatim>\<open>validate\<close>, for what a call can change and what it can depend
  on beyond its arguments. There are two such things in the source.

  Python sets are objects that are changed in place, and \<^verbatim>\<open>validate\<close> changes one:
  \<^verbatim>\<open>arg_names.remove("tracker")\<close> and \<^verbatim>\<open>arg_names.discard("params")\<close>. Whether that
  can be seen from outside depends on which object \<^verbatim>\<open>arg_names\<close> is, so the set
  objects are kept in a store, addressed by position, and the definition holds the
  addresses of its \<^verbatim>\<open>inputs\<close> and \<^verbatim>\<open>outputs\<close> sets.

  Line 104 calls \<^verbatim>\<open>task.param_schema.parse_obj(self.params)\<close>, code of a class the
  author of the task writes: its validators and default factories may read and change
  anything (a counter, the clock, a random generator). All of that is the \<open>world\<close>,
  of a type the model leaves open, and the class is a function that is run in a world
  and leaves one.
\<close>

type_synonym addr = nat

type_synonym store = "string set list"

record 'w state =
  objects :: store
  world :: 'w

record 'p TaskDefinition_obj =
  inputs_at :: addr
  outputs_at :: addr
  params_of :: "'p option"
  name_of :: string

text \<open>
  \<^verbatim>\<open>parse_obj\<close> of a parameter class: given the dictionary and the world it runs in,
  the instance (\<open>None\<close> for \<^verbatim>\<open>ValidationError\<close>) and the world it leaves.
\<close>

type_synonym ('v, 'p, 'w) param_class = "'v pydict \<Rightarrow> 'w \<Rightarrow> 'p option \<times> 'w"

text \<open>\<^verbatim>\<open>class Task\<close> with such a class for \<^verbatim>\<open>param_schema\<close>.\<close>

record ('v, 'p, 'w) Task_obj =
  task_name :: string
  task_func :: "string list"
  task_param_schema :: "('v, 'p, 'w) param_class option"

text \<open>The definition a reference denotes in a store.\<close>

definition load :: "store \<Rightarrow> 'p TaskDefinition_obj \<Rightarrow> 'p TaskDefinition" where
  "load h self = \<lparr>inputs = h ! inputs_at self, outputs = h ! outputs_at self,
                  params = params_of self, TaskDefinition.name = name_of self\<rparr>"

text \<open>
  The task of the first model that such a task is in a given world: its class parses
  as the class does when run in that world.
\<close>

definition as_task :: "'w \<Rightarrow> ('v, 'p, 'w) Task_obj \<Rightarrow> ('v, 'p) Task" where
  "as_task w task =
     \<lparr>Task.name = task_name task, Task.func = task_func task,
      param_schema = map_option (\<lambda>c d. fst (c d w)) (task_param_schema task)\<rparr>"

text \<open>\<^verbatim>\<open>set(iterable)\<close>: a new set object, at the next free address.\<close>

definition new_set :: "store \<Rightarrow> string set \<Rightarrow> addr \<times> store" where
  "new_set h s = (length h, h @ [s])"

text \<open>\<^verbatim>\<open>s.remove(x)\<close> raises \<^verbatim>\<open>KeyError\<close> when \<open>x\<close> is absent; \<^verbatim>\<open>s.discard(x)\<close> does not.\<close>

definition set_remove :: "store \<Rightarrow> addr \<Rightarrow> string \<Rightarrow> error + store" where
  "set_remove h a x = (if x \<in> h ! a then Inr (h[a := h ! a - {x}]) else Inl (KeyError x))"

definition set_discard :: "store \<Rightarrow> addr \<Rightarrow> string \<Rightarrow> store" where
  "set_discard h a x = h[a := h ! a - {x}]"

text \<open>
  The statements of \<open>TaskDefinition_validate\<close>, in the same order, with the state
  threaded through: the store through the statements on \<^verbatim>\<open>arg_names\<close>, the world
  through the call of \<^verbatim>\<open>parse_obj\<close>. The result is returned by value (pydantic
  compares models field by field, and builds the sets of a new model from the ones it
  is given).
\<close>

definition validate_store ::
  "'w state \<Rightarrow> 'v pydict TaskDefinition_obj \<Rightarrow> ('v, 'p, 'w) Task_obj \<Rightarrow> 'v pydict TaskSchema
     \<Rightarrow> (error + 'p ValidatedTaskDefinition) \<times> 'w state" where
  "validate_store s self task schema =
     (case new_set (objects s) (set (task_func task)) of (arg_names, h1) \<Rightarrow>
      if ''tracker'' \<notin> h1 ! arg_names
      then (Inl (TaskDefinitionError (MissingTracker (task_name task))),
            \<lparr>objects = h1, world = world s\<rparr>)
      else
        (case set_remove h1 arg_names ''tracker'' of
           Inl e \<Rightarrow> (Inl e, \<lparr>objects = h1, world = world s\<rparr>)
         | Inr h2 \<Rightarrow>
             if truthy (params_of self) \<and> task_param_schema task = None
             then (Inl (TaskDefinitionError (ParamsNotAccepted (task_name task))),
                   \<lparr>objects = h2, world = world s\<rparr>)
             else if params_of self = None \<and> task_param_schema task \<noteq> None
             then (Inl (TaskDefinitionError (ParamsRequired (task_name task))),
                   \<lparr>objects = h2, world = world s\<rparr>)
             else
               (case (if truthy (params_of self) \<and> task_param_schema task \<noteq> None
                      then (case (task_param_schema task, params_of self) of
                              (Some parse_obj, Some d) \<Rightarrow>
                                (case parse_obj d (world s) of
                                   (Some p, w) \<Rightarrow> (Inr (Some p), w)
                                 | (None, w) \<Rightarrow>
                                     (Inl (TaskDefinitionError
                                            (ParamsInvalid (task_name task))), w))
                            | _ \<Rightarrow> (Inr None, world s))
                      else (Inr None, world s)) of
                  (Inl e, w) \<Rightarrow> (Inl e, \<lparr>objects = h2, world = w\<rparr>)
                | (Inr parsed, w) \<Rightarrow>
                    (let h3 = set_discard h2 arg_names ''params'' in
                     if h3 ! arg_names \<noteq> h3 ! inputs_at self
                     then (Inl (TaskDefinitionError (InputsMismatch (task_name task))),
                           \<lparr>objects = h3, world = w\<rparr>)
                     else (Inr \<lparr>inputs = h3 ! inputs_at self, outputs = h3 ! outputs_at self,
                                params = parsed,
                                TaskDefinition.name = name_of self\<rparr>,
                           \<lparr>objects = h3, world = w\<rparr>)))))"


section \<open>A task to evaluate the definitions on\<close>

text \<open>
  One task, \<open>train\<close>, with the input \<open>x\<close>, the output \<open>y\<close> and the parameter
  \<open>lr\<close>: its schema refers to \<^verbatim>\<open>train.py:run\<close>, its callable is
  \<^verbatim>\<open>def run(tracker, params, x)\<close>, and its parameter class accepts every dictionary.
\<close>

definition train_schema :: "int pydict TaskSchema" where
  "train_schema = \<lparr>inputs = {''x''}, outputs = {''y''}, params = Some [(''lr'', 1)],
                    TaskSchema.func = ''train.py:run''\<rparr>"

definition train_definition :: "int pydict TaskDefinition" where
  "train_definition = \<lparr>inputs = {''x''}, outputs = {''y''}, params = Some [(''lr'', 1)],
                        TaskDefinition.name = ''train''\<rparr>"

definition train_task :: "(int, int pydict) Task" where
  "train_task = \<lparr>Task.name = ''train'', Task.func = [''tracker'', ''params'', ''x''],
                  param_schema = Some Some\<rparr>"

text \<open>
  The same definition as an object, its sets the two objects of \<open>train_state\<close>, in
  a world that is a counter. Two tasks with the callable of \<open>train_task\<close>: the class
  of \<open>train_task_obj\<close> returns the dictionary and leaves the world alone; the class
  of \<open>counting_task\<close> has a field whose default comes from a factory, which here
  hands out the counter and steps it (\<^verbatim>\<open>Field(default_factory=...)\<close> with a counter,
  \<^verbatim>\<open>uuid4\<close> or the clock).
\<close>

definition train_state :: "nat state" where
  "train_state = \<lparr>objects = [{''x''}, {''y''}], world = 0\<rparr>"

definition train_object :: "int pydict TaskDefinition_obj" where
  "train_object = \<lparr>inputs_at = 0, outputs_at = 1, params_of = Some [(''lr'', 1)],
                    name_of = ''train''\<rparr>"

definition train_task_obj :: "(int, int pydict, nat) Task_obj" where
  "train_task_obj = \<lparr>task_name = ''train'', task_func = [''tracker'', ''params'', ''x''],
                      task_param_schema = Some (\<lambda>d w. (Some d, w))\<rparr>"

definition counting_task :: "(int, nat, nat) Task_obj" where
  "counting_task = \<lparr>task_name = ''train'', task_func = [''tracker'', ''params'', ''x''],
                     task_param_schema = Some (\<lambda>d w. (Some w, Suc w))\<rparr>"


section \<open>What a failure of the output check reports\<close>

text \<open>
  The names a result of \<open>validate_outputs\<close> lists as missing, and the names it lists
  as unexpected: the set interpolated into the message of that kind, and nothing when
  the result is not a failure with that message.
\<close>

fun reported_missing :: "error + unit \<Rightarrow> string set" where
  "reported_missing (Inl (TaskDefinitionError (MissingOutputs s))) = s"
| "reported_missing r = {}"

fun reported_unexpected :: "error + unit \<Rightarrow> string set" where
  "reported_unexpected (Inl (TaskDefinitionError (UnexpectedOutputs s))) = s"
| "reported_unexpected r = {}"


section \<open>Output contract\<close>

lemma validate_outputs_ok_iff:
  "(validate_outputs self outs = Inr ()) = (set (keys outs) = outputs self)"
  unfolding validate_outputs_def Let_def by auto

lemma validate_outputs_error_iff:
  "(\<exists>m. validate_outputs self outs = Inl (TaskDefinitionError m))
     = (set (keys outs) \<noteq> outputs self)"
  unfolding validate_outputs_def Let_def by auto

text \<open>
  C3: \<open>validate_outputs\<close> returns exactly when the keys of the result mapping are the
  declared outputs, and raises \<^verbatim>\<open>TaskDefinitionError\<close> exactly when they are not.
  With the outputs \<open>a\<close> and \<open>b\<close> declared: the keys \<open>a\<close> alone fail with \<open>b\<close>
  reported missing, the keys \<open>a\<close>, \<open>b\<close>, \<open>c\<close> fail with \<open>c\<close> reported unexpected,
  and the keys \<open>a\<close>, \<open>b\<close> pass.
\<close>

theorem validate_outputs_exact:
  "(validate_outputs self outs = Inr ()) = (set (keys outs) = outputs self)
   \<and> ((\<exists>m. validate_outputs self outs = Inl (TaskDefinitionError m))
        = (set (keys outs) \<noteq> outputs self))
   \<and> validate_outputs (d\<lparr>outputs := {''a'', ''b''}\<rparr>) [(''a'', v)]
        = Inl (TaskDefinitionError (MissingOutputs {''b''}))
   \<and> validate_outputs (d\<lparr>outputs := {''a'', ''b''}\<rparr>) [(''a'', v), (''b'', v), (''c'', v)]
        = Inl (TaskDefinitionError (UnexpectedOutputs {''c''}))
   \<and> validate_outputs (d\<lparr>outputs := {''a'', ''b''}\<rparr>) [(''a'', v), (''b'', v)] = Inr ()"
proof (intro conjI)
  show "(validate_outputs self outs = Inr ()) = (set (keys outs) = outputs self)"
    by (rule validate_outputs_ok_iff)
  show "(\<exists>m. validate_outputs self outs = Inl (TaskDefinitionError m))
        = (set (keys outs) \<noteq> outputs self)"
    by (rule validate_outputs_error_iff)
  show "validate_outputs (d\<lparr>outputs := {''a'', ''b''}\<rparr>) [(''a'', v)]
        = Inl (TaskDefinitionError (MissingOutputs {''b''}))"
    unfolding validate_outputs_def Let_def keys_def by auto
  show "validate_outputs (d\<lparr>outputs := {''a'', ''b''}\<rparr>) [(''a'', v), (''b'', v), (''c'', v)]
        = Inl (TaskDefinitionError (UnexpectedOutputs {''c''}))"
    unfolding validate_outputs_def Let_def keys_def by auto
  show "validate_outputs (d\<lparr>outputs := {''a'', ''b''}\<rparr>) [(''a'', v), (''b'', v)] = Inr ()"
    unfolding validate_outputs_def Let_def keys_def by auto
qed

text \<open>
  C7, as the code has it: when a declared output is missing, the failure is the one
  for missing outputs, it lists every missing output, and it lists no unexpected key,
  whether or not the result mapping has undeclared keys.
\<close>

theorem validate_outputs_missing_first:
  "outputs self - set (keys outs) \<noteq> {} \<Longrightarrow>
     validate_outputs self outs
       = Inl (TaskDefinitionError (MissingOutputs (outputs self - set (keys outs))))
     \<and> reported_missing (validate_outputs self outs) = outputs self - set (keys outs)
     \<and> reported_unexpected (validate_outputs self outs) = {}"
  unfolding validate_outputs_def Let_def by simp

theorem validate_outputs_missing_first_witness:
  "outputs (\<lparr>inputs = {}, outputs = {''a'', ''b''}, params = None :: unit option,
              TaskDefinition.name = ''t''\<rparr>) - set (keys [(''a'', ()), (''c'', ())]) \<noteq> {}
   \<and> validate_outputs \<lparr>inputs = {}, outputs = {''a'', ''b''}, params = None :: unit option,
              TaskDefinition.name = ''t''\<rparr> [(''a'', ()), (''c'', ())]
        = Inl (TaskDefinitionError (MissingOutputs {''b''}))
   \<and> reported_unexpected
        (validate_outputs \<lparr>inputs = {}, outputs = {''a'', ''b''}, params = None :: unit option,
              TaskDefinition.name = ''t''\<rparr> [(''a'', ()), (''c'', ())]) = {}"
proof -
  let ?d = "\<lparr>inputs = {}, outputs = {''a'', ''b''}, params = None :: unit option,
              TaskDefinition.name = ''t''\<rparr>"
  have m: "outputs ?d - set (keys [(''a'', ()), (''c'', ())]) = {''b''}"
    unfolding keys_def by auto
  have ne: "outputs ?d - set (keys [(''a'', ()), (''c'', ())]) \<noteq> {}"
    unfolding m by simp
  show ?thesis
    using validate_outputs_missing_first [OF ne] m by simp
qed

text \<open>
  C7 as the specification states it fails: with the output \<open>a\<close> declared and the
  result mapping holding the key \<open>b\<close> alone, an output is missing and a key is
  unexpected, and the failure lists \<open>a\<close> as missing and lists nothing as unexpected.
\<close>

theorem validate_outputs_combined_counterexample:
  "outputs (\<lparr>inputs = {}, outputs = {''a''}, params = None :: unit option,
              TaskDefinition.name = ''t''\<rparr>) - set (keys [(''b'', ())]) = {''a''}
   \<and> set (keys [(''b'', ())]) - outputs (\<lparr>inputs = {}, outputs = {''a''},
              params = None :: unit option, TaskDefinition.name = ''t''\<rparr>) = {''b''}
   \<and> validate_outputs \<lparr>inputs = {}, outputs = {''a''}, params = None :: unit option,
              TaskDefinition.name = ''t''\<rparr> [(''b'', ())]
        = Inl (TaskDefinitionError (MissingOutputs {''a''}))
   \<and> reported_unexpected (validate_outputs \<lparr>inputs = {}, outputs = {''a''},
              params = None :: unit option, TaskDefinition.name = ''t''\<rparr> [(''b'', ())])
        \<noteq> {''b''}"
  unfolding validate_outputs_def Let_def keys_def by auto

section \<open>Function references\<close>

lemma str_split_length: "length (str_split sep s) = Suc (count_list s sep)"
  by (induction s) (auto split: list.splits)

lemma two_pieces_iff:
  "(\<exists>a b. str_split sep s = [a, b]) = (count_list s sep = 1)"
proof
  assume "\<exists>a b. str_split sep s = [a, b]"
  then have "length (str_split sep s) = 2" by auto
  then show "count_list s sep = 1" by (simp add: str_split_length)
next
  assume "count_list s sep = 1"
  then have l: "length (str_split sep s) = 2" by (simp add: str_split_length)
  then obtain a r where r: "str_split sep s = a # r" by (cases "str_split sep s") auto
  with l obtain b r' where "r = b # r'" by (cases r) auto
  with l r show "\<exists>a b. str_split sep s = [a, b]" by auto
qed

lemma case_two_pieces:
  "(case xs of [a, b] \<Rightarrow> f a b | _ \<Rightarrow> g)
     = (if \<exists>a b. xs = [a, b] then f (hd xs) (hd (tl xs)) else g)"
  by (auto split: list.splits)

lemma init_needs_name:
  "map_of kwargs ''name'' = None \<Longrightarrow> ValidatedTaskSchema_init is_file kwargs = None"
  unfolding ValidatedTaskSchema_init_def
  by (cases "map_of kwargs ''file''") (simp_all split: kwarg.split)

lemma init_without_name:
  "ValidatedTaskSchema_init is_file
     ((''file'', PathArg p) # (''func_name'', StrArg n) # model_dump schema) = None"
  by (rule init_needs_name) (simp add: model_dump_def)

lemma from_unvalidated_eq:
  "from_unvalidated is_file schema =
     (if count_list (TaskSchema.func schema) CHR '':'' = 1
      then Inl (TaskDefinitionError InvalidTaskSchema)
      else Inl (TaskDefinitionError (InvalidFunctionDefinition (TaskSchema.func schema))))"
  unfolding from_unvalidated_def case_two_pieces two_pieces_iff init_without_name
  by simp

lemma validate_schema_eq:
  "validate_schema self schema =
     (if count_list (TaskSchema.func schema) CHR '':'' = 1
      then Inl (NameError ''file_path'')
      else Inl (TaskDefinitionError (InvalidFunctionDefinition (TaskSchema.func schema))))"
  unfolding validate_schema_def case_two_pieces two_pieces_iff
  by simp

text \<open>
  C1, on the code: no call of \<open>from_unvalidated\<close> and no call of
  \<open>validate_schema\<close> returns, whatever the reference and whatever files exist. At the
  well-formed reference \<^verbatim>\<open>train.py:run\<close>, with \<^verbatim>\<open>train.py\<close> an existing file, the
  first raises \<^verbatim>\<open>TaskDefinitionError("Invalid task schema.")\<close> (the constructor is
  given \<^verbatim>\<open>func_name\<close>, its required field is \<^verbatim>\<open>name\<close>) and the second raises
  \<^verbatim>\<open>NameError\<close> for \<^verbatim>\<open>file_path\<close>.
\<close>

theorem reference_resolution_fails:
  "from_unvalidated is_file schema \<noteq> Inr v
   \<and> validate_schema self schema \<noteq> Inr callable
   \<and> str_split CHR '':'' (TaskSchema.func train_schema) = [''train.py'', ''run'']
   \<and> from_unvalidated (\<lambda>p. p = ''train.py'') train_schema
        = Inl (TaskDefinitionError InvalidTaskSchema)
   \<and> validate_schema train_definition train_schema = Inl (NameError ''file_path'')"
proof (intro conjI)
  show "from_unvalidated is_file schema \<noteq> Inr v"
    unfolding from_unvalidated_eq by simp
  show "validate_schema self schema \<noteq> Inr callable"
    unfolding validate_schema_eq by simp
  show "str_split CHR '':'' (TaskSchema.func train_schema) = [''train.py'', ''run'']"
    unfolding train_schema_def by simp
  show "from_unvalidated (\<lambda>p. p = ''train.py'') train_schema
        = Inl (TaskDefinitionError InvalidTaskSchema)"
    unfolding from_unvalidated_eq train_schema_def by simp
  show "validate_schema train_definition train_schema = Inl (NameError ''file_path'')"
    unfolding validate_schema_eq train_schema_def by simp
qed

text \<open>
  C4, as the code has it: \<open>from_unvalidated\<close> and \<open>validate_schema\<close> raise the error
  for a malformed reference, \<^verbatim>\<open>TaskDefinitionError("Invalid function definition: ...")\<close>,
  exactly when the reference does not hold one colon, that is for no colon and for
  more than one. Nothing looks at the two pieces, so a reference with one colon and an
  empty piece is not refused by this check.
\<close>

theorem malformed_reference_iff:
  "((from_unvalidated is_file schema
       = Inl (TaskDefinitionError (InvalidFunctionDefinition (TaskSchema.func schema))))
      = (count_list (TaskSchema.func schema) CHR '':'' \<noteq> 1))
   \<and> ((validate_schema self schema
       = Inl (TaskDefinitionError (InvalidFunctionDefinition (TaskSchema.func schema))))
      = (count_list (TaskSchema.func schema) CHR '':'' \<noteq> 1))"
  unfolding from_unvalidated_eq validate_schema_eq by simp

theorem malformed_reference_iff_witness:
  "count_list ''train.py'' CHR '':'' = 0
   \<and> from_unvalidated (\<lambda>p. True) (train_schema\<lparr>TaskSchema.func := ''train.py''\<rparr>)
        = Inl (TaskDefinitionError (InvalidFunctionDefinition ''train.py''))
   \<and> count_list ''a:b:c'' CHR '':'' = 2
   \<and> validate_schema train_definition (train_schema\<lparr>TaskSchema.func := ''a:b:c''\<rparr>)
        = Inl (TaskDefinitionError (InvalidFunctionDefinition ''a:b:c''))"
  using malformed_reference_iff
          [of "\<lambda>p. True" "train_schema\<lparr>TaskSchema.func := ''train.py''\<rparr>" train_definition]
        malformed_reference_iff
          [of "\<lambda>p. True" "train_schema\<lparr>TaskSchema.func := ''a:b:c''\<rparr>" train_definition]
  by simp

text \<open>
  C4 as the specification states it fails: the reference \<^verbatim>\<open>train.py:\<close> has an empty
  symbol, it splits into two pieces, and neither function raises the error for a
  malformed reference on it.
\<close>

theorem empty_component_counterexample:
  "str_split CHR '':'' ''train.py:'' = [''train.py'', '''']
   \<and> from_unvalidated (\<lambda>p. p = ''train.py'') (train_schema\<lparr>TaskSchema.func := ''train.py:''\<rparr>)
        \<noteq> Inl (TaskDefinitionError (InvalidFunctionDefinition ''train.py:''))
   \<and> validate_schema train_definition (train_schema\<lparr>TaskSchema.func := ''train.py:''\<rparr>)
        \<noteq> Inl (TaskDefinitionError (InvalidFunctionDefinition ''train.py:''))"
  unfolding from_unvalidated_eq validate_schema_eq by simp


section \<open>\<^verbatim>\<open>TaskDefinition.validate\<close>: the order of the checks\<close>

lemma truthy_iff: "truthy x = (\<exists>kv kvs. x = Some (kv # kvs))"
  by (cases x rule: truthy.cases) simp_all

lemma validate_no_tracker:
  "''tracker'' \<notin> set (Task.func task) \<Longrightarrow>
     TaskDefinition_validate self task schema
       = Inl (TaskDefinitionError (MissingTracker (Task.name task)))"
  unfolding TaskDefinition_validate_def Let_def by simp

lemma validate_not_accepted:
  "''tracker'' \<in> set (Task.func task) \<Longrightarrow> truthy (params self) \<Longrightarrow> param_schema task = None \<Longrightarrow>
     TaskDefinition_validate self task schema
       = Inl (TaskDefinitionError (ParamsNotAccepted (Task.name task)))"
  unfolding TaskDefinition_validate_def Let_def by simp

lemma validate_required:
  "''tracker'' \<in> set (Task.func task) \<Longrightarrow> params self = None \<Longrightarrow> param_schema task \<noteq> None \<Longrightarrow>
     TaskDefinition_validate self task schema
       = Inl (TaskDefinitionError (ParamsRequired (Task.name task)))"
  unfolding TaskDefinition_validate_def Let_def by simp

lemma validate_invalid:
  "''tracker'' \<in> set (Task.func task) \<Longrightarrow> params self = Some (kv # kvs) \<Longrightarrow>
   param_schema task = Some parse_obj \<Longrightarrow> parse_obj (kv # kvs) = None \<Longrightarrow>
     TaskDefinition_validate self task schema
       = Inl (TaskDefinitionError (ParamsInvalid (Task.name task)))"
  unfolding TaskDefinition_validate_def Let_def by simp

lemma validate_parsed:
  "''tracker'' \<in> set (Task.func task) \<Longrightarrow> params self = Some (kv # kvs) \<Longrightarrow>
   param_schema task = Some parse_obj \<Longrightarrow> parse_obj (kv # kvs) = Some p \<Longrightarrow>
     TaskDefinition_validate self task schema
       = (if set (Task.func task) - {''tracker''} - {''params''} \<noteq> inputs self
          then Inl (TaskDefinitionError (InputsMismatch (Task.name task)))
          else Inr \<lparr>inputs = inputs self, outputs = outputs self, params = Some p,
                    TaskDefinition.name = TaskDefinition.name self\<rparr>)"
  unfolding TaskDefinition_validate_def Let_def by simp

lemma validate_unparsed:
  "''tracker'' \<in> set (Task.func task) \<Longrightarrow> \<not> truthy (params self) \<Longrightarrow>
   (param_schema task \<noteq> None \<Longrightarrow> params self \<noteq> None) \<Longrightarrow>
     TaskDefinition_validate self task schema
       = (if set (Task.func task) - {''tracker''} - {''params''} \<noteq> inputs self
          then Inl (TaskDefinitionError (InputsMismatch (Task.name task)))
          else Inr \<lparr>inputs = inputs self, outputs = outputs self, params = None,
                    TaskDefinition.name = TaskDefinition.name self\<rparr>)"
  unfolding TaskDefinition_validate_def Let_def by auto


lemma validate_result:
  "(\<exists>m. TaskDefinition_validate self task schema = Inl (TaskDefinitionError m))
   \<or> (''tracker'' \<in> set (Task.func task)
       \<and> set (Task.func task) - {''tracker''} - {''params''} = inputs self
       \<and> (\<exists>p. TaskDefinition_validate self task schema
             = Inr \<lparr>inputs = inputs self, outputs = outputs self, params = p,
                    TaskDefinition.name = TaskDefinition.name self\<rparr>))"
proof (cases "''tracker'' \<in> set (Task.func task)")
  case False
  then show ?thesis by (simp add: validate_no_tracker)
next
  case tracker: True
  show ?thesis
  proof (cases "params self" rule: truthy.cases)
    case 1
    show ?thesis
    proof (cases "param_schema task")
      case None
      then show ?thesis using validate_unparsed [of task self schema] tracker 1 by auto
    next
      case (Some parse_obj)
      then show ?thesis using validate_required [of task self schema] tracker 1 by auto
    qed
  next
    case 2
    then show ?thesis using validate_unparsed [of task self schema] tracker by auto
  next
    case (3 kv kvs)
    show ?thesis
    proof (cases "param_schema task")
      case None
      then show ?thesis using validate_not_accepted [of task self schema] tracker 3 by auto
    next
      case (Some parse_obj)
      show ?thesis
      proof (cases "parse_obj (kv # kvs)")
        case None
        then show ?thesis using validate_invalid [OF tracker 3 Some] by auto
      next
        case (Some p)
        then show ?thesis
          using validate_parsed [OF tracker 3 \<open>param_schema task = Some parse_obj\<close> Some,
                  of schema] tracker
          by auto
      qed
    qed
  qed
qed

lemma validate_error_kind:
  "TaskDefinition_validate self task schema = Inl e \<Longrightarrow> \<exists>m. e = TaskDefinitionError m"
  using validate_result [of self task schema] by auto

lemma validate_success:
  "TaskDefinition_validate self task schema = Inr v \<Longrightarrow>
     ''tracker'' \<in> set (Task.func task)
     \<and> set (Task.func task) - {''tracker''} - {''params''} = inputs self
     \<and> (\<exists>p. v = \<lparr>inputs = inputs self, outputs = outputs self, params = p,
                  TaskDefinition.name = TaskDefinition.name self\<rparr>)"
  using validate_result [of self task schema] by auto


text \<open>
  C2, as the code has it: when the callable has a parameter named \<open>tracker\<close>, the
  checks on the parameter declarations pass (parameters supplied are accepted,
  parameters required are supplied) and the parameters, where both sides declare
  them, parse, \<open>TaskDefinition_validate\<close> returns exactly when the formal
  parameters without \<open>tracker\<close> and \<open>params\<close> are the declared inputs; when they
  are not, it raises the inputs-do-not-match error, and when they are, it returns the
  definition's name, inputs and outputs.
\<close>

theorem validate_inputs_exact:
  assumes tracker: "''tracker'' \<in> set (Task.func task)"
    and accepted: "truthy (params self) \<Longrightarrow> param_schema task \<noteq> None"
    and supplied: "param_schema task \<noteq> None \<Longrightarrow> params self \<noteq> None"
    and parsed: "\<forall>parse_obj d. param_schema task = Some parse_obj \<and> params self = Some d
                   \<and> truthy (Some d) \<longrightarrow> parse_obj d \<noteq> None"
  shows "((\<exists>v. TaskDefinition_validate self task schema = Inr v)
            = (set (Task.func task) - {''tracker''} - {''params''} = inputs self))
         \<and> (set (Task.func task) - {''tracker''} - {''params''} \<noteq> inputs self \<longrightarrow>
              TaskDefinition_validate self task schema
                = Inl (TaskDefinitionError (InputsMismatch (Task.name task))))
         \<and> (set (Task.func task) - {''tracker''} - {''params''} = inputs self \<longrightarrow>
              (\<exists>p. TaskDefinition_validate self task schema
                = Inr \<lparr>inputs = inputs self, outputs = outputs self, params = p,
                       TaskDefinition.name = TaskDefinition.name self\<rparr>))"
proof (cases "truthy (params self)")
  case True
  then obtain kv kvs where d: "params self = Some (kv # kvs)" by (auto simp: truthy_iff)
  from accepted True obtain parse_obj where ps: "param_schema task = Some parse_obj" by auto
  from parsed ps d obtain p where p: "parse_obj (kv # kvs) = Some p" by auto
  show ?thesis
    using validate_parsed [OF tracker d ps p, of schema] by simp
next
  case False
  show ?thesis
    using validate_unparsed [OF tracker False supplied, of schema] by simp
qed

theorem validate_inputs_exact_witness:
  "''tracker'' \<in> set (Task.func train_task)
   \<and> set (Task.func train_task) - {''tracker''} - {''params''} = inputs train_definition
   \<and> (\<exists>v. TaskDefinition_validate train_definition train_task train_schema = Inr v)
   \<and> set (Task.func (train_task\<lparr>Task.func := [''tracker'', ''params'', ''x'', ''z'']\<rparr>))
        - {''tracker''} - {''params''} \<noteq> inputs train_definition
   \<and> TaskDefinition_validate train_definition
        (train_task\<lparr>Task.func := [''tracker'', ''params'', ''x'', ''z'']\<rparr>) train_schema
        = Inl (TaskDefinitionError (InputsMismatch ''train''))"
proof -
  let ?wide = "train_task\<lparr>Task.func := [''tracker'', ''params'', ''x'', ''z'']\<rparr>"
  have t: "''tracker'' \<in> set (Task.func train_task)"
    unfolding train_task_def by simp
  have a: "truthy (params train_definition) \<Longrightarrow> param_schema train_task \<noteq> None"
    unfolding train_task_def by simp
  have s: "param_schema train_task \<noteq> None \<Longrightarrow> params train_definition \<noteq> None"
    unfolding train_definition_def by simp
  have p: "\<forall>parse_obj d. param_schema train_task = Some parse_obj
             \<and> params train_definition = Some d \<and> truthy (Some d) \<longrightarrow> parse_obj d \<noteq> None"
    unfolding train_task_def by auto
  have e: "set (Task.func train_task) - {''tracker''} - {''params''} = inputs train_definition"
    unfolding train_task_def train_definition_def by auto
  have t': "''tracker'' \<in> set (Task.func ?wide)"
    by simp
  have a': "truthy (params train_definition) \<Longrightarrow> param_schema ?wide \<noteq> None"
    unfolding train_task_def by simp
  have s': "param_schema ?wide \<noteq> None \<Longrightarrow> params train_definition \<noteq> None"
    unfolding train_definition_def by simp
  have p': "\<forall>parse_obj d. param_schema ?wide = Some parse_obj
             \<and> params train_definition = Some d \<and> truthy (Some d) \<longrightarrow> parse_obj d \<noteq> None"
    unfolding train_task_def by auto
  have n: "set (Task.func ?wide) - {''tracker''} - {''params''} \<noteq> inputs train_definition"
    unfolding train_definition_def by auto
  have nm: "Task.name ?wide = ''train''"
    unfolding train_task_def by simp
  show ?thesis
    using validate_inputs_exact [OF t a s p, of train_schema]
      validate_inputs_exact [OF t' a' s' p', of train_schema] t e n nm
    by simp
qed

text \<open>
  C2 as the specification states it fails: the callable has the parameter
  \<open>tracker\<close>, both sides declare parameters, so both checks on the declarations
  pass, and the formal parameters without \<open>tracker\<close> and \<open>params\<close> are the
  declared inputs; but the class of the task refuses the dictionary, and
  \<open>TaskDefinition_validate\<close> raises the invalid-parameters error (line 106, before
  the inputs are compared). With one more formal parameter, \<open>z\<close>, the sets differ
  and the error is still that one, not the inputs-do-not-match error.
\<close>

theorem inputs_exact_without_parse_counterexample:
  "''tracker'' \<in> set (Task.func (train_task\<lparr>param_schema := Some (\<lambda>d. None)\<rparr>))
   \<and> truthy (params train_definition)
   \<and> param_schema (train_task\<lparr>param_schema := Some (\<lambda>d. None)\<rparr>) \<noteq> None
   \<and> set (Task.func (train_task\<lparr>param_schema := Some (\<lambda>d. None)\<rparr>))
        - {''tracker''} - {''params''} = inputs train_definition
   \<and> TaskDefinition_validate train_definition
        (train_task\<lparr>param_schema := Some (\<lambda>d. None)\<rparr>) train_schema
        = Inl (TaskDefinitionError (ParamsInvalid ''train''))
   \<and> set (Task.func (train_task\<lparr>Task.func := [''tracker'', ''params'', ''x'', ''z''],
                                  param_schema := Some (\<lambda>d. None)\<rparr>))
        - {''tracker''} - {''params''} \<noteq> inputs train_definition
   \<and> TaskDefinition_validate train_definition
        (train_task\<lparr>Task.func := [''tracker'', ''params'', ''x'', ''z''],
                    param_schema := Some (\<lambda>d. None)\<rparr>) train_schema
        \<noteq> Inl (TaskDefinitionError (InputsMismatch ''train''))"
proof -
  let ?refusing = "train_task\<lparr>param_schema := Some (\<lambda>d. None)\<rparr>"
  let ?wide = "train_task\<lparr>Task.func := [''tracker'', ''params'', ''x'', ''z''],
                          param_schema := Some (\<lambda>d. None)\<rparr>"
  have t: "''tracker'' \<in> set (Task.func ?refusing)" "''tracker'' \<in> set (Task.func ?wide)"
    unfolding train_task_def by simp_all
  have d: "params train_definition = Some [(''lr'', 1)]"
    unfolding train_definition_def by simp
  have n: "Task.name ?refusing = ''train''" "Task.name ?wide = ''train''"
    unfolding train_task_def by simp_all
  have e: "set (Task.func ?refusing) - {''tracker''} - {''params''} = inputs train_definition"
    unfolding train_task_def train_definition_def by auto
  have w: "set (Task.func ?wide) - {''tracker''} - {''params''} \<noteq> inputs train_definition"
    unfolding train_definition_def by auto
  have r: "TaskDefinition_validate train_definition ?refusing train_schema
             = Inl (TaskDefinitionError (ParamsInvalid ''train''))"
    using validate_invalid [of ?refusing train_definition "(''lr'', 1)" "[]" "\<lambda>d. None"
            train_schema] t d n
    by simp
  have r': "TaskDefinition_validate train_definition ?wide train_schema
             = Inl (TaskDefinitionError (ParamsInvalid ''train''))"
    using validate_invalid [of ?wide train_definition "(''lr'', 1)" "[]" "\<lambda>d. None"
            train_schema] t d n
    by simp
  show ?thesis
    using t d e w r r' by simp
qed

text \<open>
  C5, as the code has it: when the definition declares non-empty parameters and the
  task has no \<^verbatim>\<open>param_schema\<close>, or the task has a \<^verbatim>\<open>param_schema\<close> and the
  definition's parameters are absent, \<open>TaskDefinition_validate\<close> raises
  \<^verbatim>\<open>TaskDefinitionError\<close>; the error is the one for parameters not accepted, or for
  parameters required, when the callable has a parameter named \<open>tracker\<close> (the check
  that comes first).
\<close>

theorem validate_param_asymmetry:
  "(truthy (params self) \<and> param_schema task = None \<longrightarrow>
      (\<exists>m. TaskDefinition_validate self task schema = Inl (TaskDefinitionError m))
      \<and> (''tracker'' \<in> set (Task.func task) \<longrightarrow>
           TaskDefinition_validate self task schema
             = Inl (TaskDefinitionError (ParamsNotAccepted (Task.name task)))))
   \<and> (params self = None \<and> param_schema task \<noteq> None \<longrightarrow>
      (\<exists>m. TaskDefinition_validate self task schema = Inl (TaskDefinitionError m))
      \<and> (''tracker'' \<in> set (Task.func task) \<longrightarrow>
           TaskDefinition_validate self task schema
             = Inl (TaskDefinitionError (ParamsRequired (Task.name task)))))"
proof (cases "''tracker'' \<in> set (Task.func task)")
  case True
  then show ?thesis
    using validate_not_accepted [of task self schema] validate_required [of task self schema]
    by simp
next
  case False
  then show ?thesis
    using validate_no_tracker [of task self schema] by simp
qed


theorem validate_param_asymmetry_witness:
  "truthy (params train_definition)
   \<and> param_schema (train_task\<lparr>param_schema := None\<rparr>) = None
   \<and> TaskDefinition_validate train_definition (train_task\<lparr>param_schema := None\<rparr>) train_schema
        = Inl (TaskDefinitionError (ParamsNotAccepted ''train''))
   \<and> params (train_definition\<lparr>params := None\<rparr>) = None
   \<and> param_schema train_task \<noteq> None
   \<and> TaskDefinition_validate (train_definition\<lparr>params := None\<rparr>) train_task train_schema
        = Inl (TaskDefinitionError (ParamsRequired ''train''))"
proof -
  have a: "truthy (params train_definition)"
    unfolding train_definition_def by simp
  have b: "param_schema train_task \<noteq> None" "''tracker'' \<in> set (Task.func train_task)"
    "Task.name train_task = ''train''"
    unfolding train_task_def by simp_all
  show ?thesis
    using validate_param_asymmetry [of train_definition "train_task\<lparr>param_schema := None\<rparr>"
            train_schema]
      validate_param_asymmetry [of "train_definition\<lparr>params := None\<rparr>" train_task train_schema]
      a b
    by simp
qed

text \<open>
  C5 as the specification states it fails: the definition declares the parameter
  \<open>lr\<close>, the task has no \<^verbatim>\<open>param_schema\<close>, and its callable \<^verbatim>\<open>def run(x)\<close> has no
  parameter named \<open>tracker\<close>; the error raised is the one for the missing tracker.
\<close>

theorem asymmetry_without_tracker_counterexample:
  "truthy (params train_definition)
   \<and> param_schema (train_task\<lparr>Task.func := [''x''], param_schema := None\<rparr>) = None
   \<and> TaskDefinition_validate train_definition
        (train_task\<lparr>Task.func := [''x''], param_schema := None\<rparr>) train_schema
        = Inl (TaskDefinitionError (MissingTracker ''train''))
   \<and> TaskDefinition_validate train_definition
        (train_task\<lparr>Task.func := [''x''], param_schema := None\<rparr>) train_schema
        \<noteq> Inl (TaskDefinitionError (ParamsNotAccepted ''train''))"
proof -
  have "TaskDefinition_validate train_definition
        (train_task\<lparr>Task.func := [''x''], param_schema := None\<rparr>) train_schema
        = Inl (TaskDefinitionError (MissingTracker ''train''))"
    by (simp add: validate_no_tracker train_task_def)
  then show ?thesis
    by (simp add: train_definition_def)
qed

text \<open>
  C9: when the definition's parameters are the empty dictionary and the task has a
  \<^verbatim>\<open>param_schema\<close>, \<open>TaskDefinition_validate\<close> raises neither the
  parameters-required error nor the invalid-parameters error, its result does not
  depend on the \<^verbatim>\<open>param_schema\<close> (nothing is parsed), a definition it returns has
  \<open>params = None\<close>, and the result is the one for the same definition without
  parameters and the same task without \<^verbatim>\<open>param_schema\<close>.
\<close>

theorem validate_empty_params:
  assumes empty: "params self = Some []"
    and schema: "param_schema task = Some parse_obj"
  shows "TaskDefinition_validate self task schema
           \<noteq> Inl (TaskDefinitionError (ParamsRequired (Task.name task)))
         \<and> TaskDefinition_validate self task schema
           \<noteq> Inl (TaskDefinitionError (ParamsInvalid (Task.name task)))
         \<and> TaskDefinition_validate self (task\<lparr>param_schema := Some other\<rparr>) schema
           = TaskDefinition_validate self task schema
         \<and> (\<forall>v. TaskDefinition_validate self task schema = Inr v \<longrightarrow> params v = None)
         \<and> TaskDefinition_validate self task schema
           = TaskDefinition_validate (self\<lparr>params := None\<rparr>) (task\<lparr>param_schema := None\<rparr>) schema"
proof (cases "''tracker'' \<in> set (Task.func task)")
  case False
  then show ?thesis by (simp add: validate_no_tracker)
next
  case True
  have a: "TaskDefinition_validate self task schema
       = (if set (Task.func task) - {''tracker''} - {''params''} \<noteq> inputs self
          then Inl (TaskDefinitionError (InputsMismatch (Task.name task)))
          else Inr \<lparr>inputs = inputs self, outputs = outputs self, params = None,
                    TaskDefinition.name = TaskDefinition.name self\<rparr>)"
    using validate_unparsed [of task self schema] True empty by simp
  have b: "TaskDefinition_validate self (task\<lparr>param_schema := Some other\<rparr>) schema
       = (if set (Task.func task) - {''tracker''} - {''params''} \<noteq> inputs self
          then Inl (TaskDefinitionError (InputsMismatch (Task.name task)))
          else Inr \<lparr>inputs = inputs self, outputs = outputs self, params = None,
                    TaskDefinition.name = TaskDefinition.name self\<rparr>)"
    using validate_unparsed [of "task\<lparr>param_schema := Some other\<rparr>" self schema] True empty
    by simp
  have c: "TaskDefinition_validate (self\<lparr>params := None\<rparr>) (task\<lparr>param_schema := None\<rparr>) schema
       = (if set (Task.func task) - {''tracker''} - {''params''} \<noteq> inputs self
          then Inl (TaskDefinitionError (InputsMismatch (Task.name task)))
          else Inr \<lparr>inputs = inputs self, outputs = outputs self, params = None,
                    TaskDefinition.name = TaskDefinition.name self\<rparr>)"
    using validate_unparsed [of "task\<lparr>param_schema := None\<rparr>" "self\<lparr>params := None\<rparr>" schema]
      True by simp
  show ?thesis unfolding a b c by auto
qed


theorem validate_empty_params_witness:
  "params (train_definition\<lparr>params := Some []\<rparr>) = Some []
   \<and> param_schema (train_task\<lparr>param_schema := Some (\<lambda>d. None)\<rparr>) = Some (\<lambda>d. None)
   \<and> TaskDefinition_validate (train_definition\<lparr>params := Some []\<rparr>)
        (train_task\<lparr>param_schema := Some (\<lambda>d. None)\<rparr>) train_schema
        = Inr \<lparr>inputs = {''x''}, outputs = {''y''}, params = None,
               TaskDefinition.name = ''train''\<rparr>"
proof -
  have e: "params (train_definition\<lparr>params := Some []\<rparr>) = Some []"
    by simp
  have s: "param_schema (train_task\<lparr>param_schema := Some (\<lambda>d. None)\<rparr>) = Some (\<lambda>d. None)"
    by simp
  have r: "TaskDefinition_validate (train_definition\<lparr>params := None\<rparr>)
             (train_task\<lparr>param_schema := None\<rparr>) train_schema
           = Inr \<lparr>inputs = {''x''}, outputs = {''y''}, params = None,
                  TaskDefinition.name = ''train''\<rparr>"
    unfolding TaskDefinition_validate_def Let_def train_definition_def train_task_def
    by auto
  show ?thesis
    using validate_empty_params [OF e s, of train_schema] r by simp
qed

text \<open>
  C10: a definition that \<open>TaskDefinition_validate\<close> returns for has the inputs that
  are the formal parameters without \<open>tracker\<close> and without \<open>params\<close>, whether or not
  the task has a \<^verbatim>\<open>param_schema\<close>; so when the declared inputs hold the name
  \<open>params\<close>, it raises \<^verbatim>\<open>TaskDefinitionError\<close> whatever the callable's parameters are.
\<close>

theorem validate_params_input_rejected:
  "(\<forall>v. TaskDefinition_validate self task schema = Inr v \<longrightarrow>
       inputs self = set (Task.func task) - {''tracker''} - {''params''})
   \<and> (''params'' \<in> inputs self \<longrightarrow>
       (\<exists>m. TaskDefinition_validate self task schema = Inl (TaskDefinitionError m)))"
  using validate_result [of self task schema] by auto


theorem validate_params_input_rejected_witness:
  "''params'' \<in> inputs (train_definition\<lparr>inputs := {''params'', ''x''}\<rparr>)
   \<and> TaskDefinition_validate (train_definition\<lparr>inputs := {''params'', ''x''}\<rparr>)
        train_task train_schema
        = Inl (TaskDefinitionError (InputsMismatch ''train''))
   \<and> param_schema (train_task\<lparr>param_schema := None\<rparr>) = None
   \<and> TaskDefinition_validate (train_definition\<lparr>params := None\<rparr>)
        (train_task\<lparr>param_schema := None\<rparr>) train_schema
        = Inr \<lparr>inputs = {''x''}, outputs = {''y''}, params = None,
               TaskDefinition.name = ''train''\<rparr>
   \<and> inputs (train_definition\<lparr>params := None\<rparr>)
        = set (Task.func (train_task\<lparr>param_schema := None\<rparr>)) - {''tracker''} - {''params''}"
proof -
  have m: "TaskDefinition_validate (train_definition\<lparr>inputs := {''params'', ''x''}\<rparr>)
        train_task train_schema
        = Inl (TaskDefinitionError (InputsMismatch ''train''))"
    unfolding TaskDefinition_validate_def Let_def train_definition_def train_task_def
    by auto
  have r: "TaskDefinition_validate (train_definition\<lparr>params := None\<rparr>)
             (train_task\<lparr>param_schema := None\<rparr>) train_schema
           = Inr \<lparr>inputs = {''x''}, outputs = {''y''}, params = None,
                  TaskDefinition.name = ''train''\<rparr>"
    unfolding TaskDefinition_validate_def Let_def train_definition_def train_task_def
    by auto
  show ?thesis
    using validate_params_input_rejected
            [of "train_definition\<lparr>inputs := {''params'', ''x''}\<rparr>" train_task train_schema]
      validate_params_input_rejected
            [of "train_definition\<lparr>params := None\<rparr>" "train_task\<lparr>param_schema := None\<rparr>"
                train_schema] m r
    by simp
qed


section \<open>\<^verbatim>\<open>ExperimentSchema.validate\<close>: the rules of the pass\<close>

lemma check_params_ok_iff:
  "(check_params n ins ks = Inr ()) = (set ks \<subseteq> ins)"
  by (induction ks) auto

lemma check_params_error:
  "check_params n ins ks = Inl e \<Longrightarrow>
     \<exists>k. k \<in> set ks \<and> k \<notin> ins \<and> e = ValueError (ParamNotInput n k)"
  by (induction ks) (auto split: if_splits)

lemma check_task_ok_iff:
  "(check_task n t = Inr ()) =
     (inputs t \<noteq> {} \<and> outputs t \<noteq> {}
      \<and> (\<forall>d. params t = Some d \<longrightarrow> set (keys d) \<subseteq> inputs t))"
proof (cases "params t" rule: truthy.cases)
  case 1
  then show ?thesis unfolding check_task_def by simp
next
  case 2
  then show ?thesis unfolding check_task_def by (simp add: keys_def)
next
  case (3 kv kvs)
  then show ?thesis unfolding check_task_def by (simp add: check_params_ok_iff)
qed

lemma check_task_error:
  assumes "check_task n t = Inl e"
  shows "(e = ValueError (NoInputs n) \<and> inputs t = {})
         \<or> (e = ValueError (NoOutputs n) \<and> outputs t = {})
         \<or> (\<exists>d k. params t = Some d \<and> k \<in> set (keys d) \<and> k \<notin> inputs t
                \<and> e = ValueError (ParamNotInput n k))"
proof (cases "params t" rule: truthy.cases)
  case 1
  with assms show ?thesis unfolding check_task_def by (simp split: if_splits)
next
  case 2
  with assms show ?thesis unfolding check_task_def by (simp split: if_splits)
next
  case (3 kv kvs)
  show ?thesis
  proof (cases "inputs t = {} \<or> outputs t = {}")
    case True
    with assms show ?thesis unfolding check_task_def by (auto split: if_splits)
  next
    case False
    with assms 3 have "check_params n (inputs t) (keys (kv # kvs)) = Inl e"
      unfolding check_task_def by simp
    from check_params_error [OF this] 3 show ?thesis by blast
  qed
qed

lemma check_tasks_ok_iff:
  "(check_tasks ts = Inr ()) = (\<forall>(n, t) \<in> set ts. check_task n t = Inr ())"
  by (induction ts rule: check_tasks.induct) (auto split: sum.splits)

lemma check_tasks_error:
  "check_tasks ts = Inl e \<Longrightarrow> \<exists>(n, t) \<in> set ts. check_task n t = Inl e"
  by (induction ts rule: check_tasks.induct) (auto split: sum.splits)

lemma not_Inr_unit: "(r \<noteq> Inr ()) = (\<exists>e. r = Inl e)" for r :: "error + unit"
  by (cases r) auto

text \<open>
  C6: \<open>ExperimentSchema_validate\<close> raises exactly when some task of the collection
  has no inputs, no outputs, or a parameter key that is not one of its own inputs; and
  the error it raises carries the name of such a task and the rule it breaks, with the
  parameter key for the third rule.
\<close>

theorem experiment_validate_rules:
  "((\<exists>e. ExperimentSchema_validate self = Inl e) =
      (\<exists>(n, t) \<in> set (tasks self).
          inputs t = {} \<or> outputs t = {}
          \<or> (\<exists>d k. params t = Some d \<and> k \<in> set (keys d) \<and> k \<notin> inputs t)))
   \<and> (\<forall>e. ExperimentSchema_validate self = Inl e \<longrightarrow>
        (\<exists>(n, t) \<in> set (tasks self).
            (e = ValueError (NoInputs n) \<and> inputs t = {})
            \<or> (e = ValueError (NoOutputs n) \<and> outputs t = {})
            \<or> (\<exists>d k. params t = Some d \<and> k \<in> set (keys d) \<and> k \<notin> inputs t
                   \<and> e = ValueError (ParamNotInput n k))))"
proof (intro conjI allI impI)
  have "(\<exists>e. ExperimentSchema_validate self = Inl e)
          = (\<not> (\<forall>(n, t) \<in> set (tasks self). check_task n t = Inr ()))"
    unfolding ExperimentSchema_validate_def check_tasks_ok_iff [symmetric] not_Inr_unit
    by simp
  also have "\<dots> = (\<exists>(n, t) \<in> set (tasks self).
          inputs t = {} \<or> outputs t = {}
          \<or> (\<exists>d k. params t = Some d \<and> k \<in> set (keys d) \<and> k \<notin> inputs t))"
    by (simp add: check_task_ok_iff case_prod_beta subset_iff Bex_def Ball_def)
  finally show "(\<exists>e. ExperimentSchema_validate self = Inl e) =
      (\<exists>(n, t) \<in> set (tasks self).
          inputs t = {} \<or> outputs t = {}
          \<or> (\<exists>d k. params t = Some d \<and> k \<in> set (keys d) \<and> k \<notin> inputs t))" .
next
  fix e
  assume "ExperimentSchema_validate self = Inl e"
  then obtain n t where nt: "(n, t) \<in> set (tasks self)" and e: "check_task n t = Inl e"
    unfolding ExperimentSchema_validate_def using check_tasks_error by blast
  from check_task_error [OF e] nt
  show "\<exists>(n, t) \<in> set (tasks self).
            (e = ValueError (NoInputs n) \<and> inputs t = {})
            \<or> (e = ValueError (NoOutputs n) \<and> outputs t = {})
            \<or> (\<exists>d k. params t = Some d \<and> k \<in> set (keys d) \<and> k \<notin> inputs t
                   \<and> e = ValueError (ParamNotInput n k))"
    by blast
qed

theorem experiment_validate_rules_witness:
  "ExperimentSchema_validate
     \<lparr>tasks = [(''train'', train_schema\<lparr>inputs := {''y''}, params := Some [(''x'', 1)]\<rparr>)]\<rparr>
     = Inl (ValueError (ParamNotInput ''train'' ''x''))
   \<and> (\<exists>(n, t) \<in> set (tasks
         \<lparr>tasks = [(''train'', train_schema\<lparr>inputs := {''y''}, params := Some [(''x'', 1)]\<rparr>)]\<rparr>).
         \<exists>d k. params t = Some d \<and> k \<in> set (keys d) \<and> k \<notin> inputs t
           \<and> ValueError (ParamNotInput ''train'' ''x'') = ValueError (ParamNotInput n k))
   \<and> ExperimentSchema_validate
       \<lparr>tasks = [(''train'', train_schema\<lparr>params := None\<rparr>),
                 (''eval'', train_schema\<lparr>outputs := {}\<rparr>)]\<rparr>
     = Inl (ValueError (NoOutputs ''eval''))
   \<and> ExperimentSchema_validate \<lparr>tasks = [(''train'', train_schema\<lparr>params := None\<rparr>)]\<rparr>
     = Inr ()"
proof -
  let ?e = "\<lparr>tasks = [(''train'', train_schema\<lparr>inputs := {''y''}, params := Some [(''x'', 1)]\<rparr>)]\<rparr>"
  have r: "ExperimentSchema_validate ?e = Inl (ValueError (ParamNotInput ''train'' ''x''))"
    by (simp add: ExperimentSchema_validate_def check_task_def keys_def train_schema_def)
  have o: "ExperimentSchema_validate
       \<lparr>tasks = [(''train'', train_schema\<lparr>params := None\<rparr>),
                 (''eval'', train_schema\<lparr>outputs := {}\<rparr>)]\<rparr>
     = Inl (ValueError (NoOutputs ''eval''))"
    by (simp add: ExperimentSchema_validate_def check_task_def keys_def train_schema_def)
  have k: "ExperimentSchema_validate \<lparr>tasks = [(''train'', train_schema\<lparr>params := None\<rparr>)]\<rparr>
     = Inr ()"
    by (simp add: ExperimentSchema_validate_def check_task_def keys_def train_schema_def)
  show ?thesis
    using experiment_validate_rules [of ?e] r o k by (simp add: keys_def)
qed

section \<open>\<^verbatim>\<open>TaskDefinition.validate\<close>: its effects and a second run\<close>

lemma validate_store_eq:
  assumes i: "inputs_at self < length (objects s)" and o: "outputs_at self < length (objects s)"
  shows "\<exists>x w'. validate_store s self task schema
                   = (TaskDefinition_validate (load (objects s) self) (as_task (world s) task) schema,
                      \<lparr>objects = objects s @ [x], world = w'\<rparr>)"
proof (cases "''tracker'' \<in> set (task_func task)")
  case False
  then show ?thesis
    unfolding validate_store_def TaskDefinition_validate_def Let_def new_set_def as_task_def
    by simp
next
  case tracker: True
  show ?thesis
  proof (cases "params_of self" rule: truthy.cases)
    case 1
    then show ?thesis
      unfolding validate_store_def TaskDefinition_validate_def Let_def new_set_def
        set_remove_def set_discard_def load_def as_task_def
      using tracker i o by (cases "task_param_schema task") (simp_all add: nth_append)
  next
    case 2
    then show ?thesis
      unfolding validate_store_def TaskDefinition_validate_def Let_def new_set_def
        set_remove_def set_discard_def load_def as_task_def
      using tracker i o by (simp add: nth_append)
  next
    case (3 kv kvs)
    show ?thesis
    proof (cases "task_param_schema task")
      case None
      then show ?thesis
        unfolding validate_store_def TaskDefinition_validate_def Let_def new_set_def
          set_remove_def set_discard_def load_def as_task_def
        using tracker i o 3 by (simp add: nth_append)
    next
      case (Some c)
      obtain r w where run: "c (kv # kvs) (world s) = (r, w)"
        by (cases "c (kv # kvs) (world s)") auto
      from Some run show ?thesis
        unfolding validate_store_def TaskDefinition_validate_def Let_def new_set_def
          set_remove_def set_discard_def load_def as_task_def
        using tracker i o 3 by (cases r) (simp_all add: nth_append)
    qed
  qed
qed

lemma validate_store_world:
  assumes keep: "\<forall>c d. task_param_schema task = Some c \<longrightarrow> snd (c d (world s)) = world s"
  shows "world (snd (validate_store s self task schema)) = world s"
proof (cases "''tracker'' \<in> set (task_func task)")
  case False
  then show ?thesis
    unfolding validate_store_def Let_def new_set_def by simp
next
  case tracker: True
  show ?thesis
  proof (cases "params_of self" rule: truthy.cases)
    case 1
    then show ?thesis
      unfolding validate_store_def Let_def new_set_def set_remove_def set_discard_def
      using tracker by (cases "task_param_schema task") simp_all
  next
    case 2
    then show ?thesis
      unfolding validate_store_def Let_def new_set_def set_remove_def set_discard_def
      using tracker by simp
  next
    case (3 kv kvs)
    show ?thesis
    proof (cases "task_param_schema task")
      case None
      then show ?thesis
        unfolding validate_store_def Let_def new_set_def set_remove_def set_discard_def
        using tracker 3 by simp
    next
      case (Some c)
      obtain r w where run: "c (kv # kvs) (world s) = (r, w)"
        by (cases "c (kv # kvs) (world s)") auto
      from keep Some have "snd (c (kv # kvs) (world s)) = world s" by blast
      with run have w: "w = world s" by simp
      from Some run w show ?thesis
        unfolding validate_store_def Let_def new_set_def set_remove_def set_discard_def
        using tracker 3 by (cases r) simp_all
    qed
  qed
qed

lemma load_append:
  "inputs_at self < length h \<Longrightarrow> outputs_at self < length h \<Longrightarrow> load (h @ h') self = load h self"
  unfolding load_def by (simp add: nth_append)

lemma as_task_deterministic:
  assumes "\<forall>c d w w'. task_param_schema task = Some c \<longrightarrow> fst (c d w) = fst (c d w')"
  shows "as_task w task = as_task w' task"
proof (cases "task_param_schema task")
  case None
  then show ?thesis unfolding as_task_def by simp
next
  case (Some c)
  with assms have "\<And>d. fst (c d w) = fst (c d w')" by blast
  with Some show ?thesis unfolding as_task_def by simp
qed

text \<open>
  C8, as the code has it. For a definition whose two sets are objects of the store, a
  run of \<open>validate_store\<close>, whether it returns or raises, leaves every object that
  was in the store as it was (the set it changes is one it has made), so the
  definition reads the same afterwards, and its result is that of
  \<open>TaskDefinition_validate\<close> for the class as it parses in the world of the run.
  When the class of the task leaves the world as it finds it, so does the run. When
  what the class returns does not depend on the world, a second run, on the store the
  first one left and in any world, has the same result as the first.
\<close>

theorem validate_pure_idempotent:
  assumes i: "inputs_at self < length (objects s)"
    and o: "outputs_at self < length (objects s)"
  shows "take (length (objects s)) (objects (snd (validate_store s self task schema)))
           = objects s
         \<and> load (objects (snd (validate_store s self task schema))) self
             = load (objects s) self
         \<and> fst (validate_store s self task schema)
             = TaskDefinition_validate (load (objects s) self) (as_task (world s) task) schema
         \<and> ((\<forall>c d w. task_param_schema task = Some c \<longrightarrow> snd (c d w) = w) \<longrightarrow>
               world (snd (validate_store s self task schema)) = world s)
         \<and> ((\<forall>c d w w'. task_param_schema task = Some c \<longrightarrow> fst (c d w) = fst (c d w')) \<longrightarrow>
               (\<forall>w. fst (validate_store
                          \<lparr>objects = objects (snd (validate_store s self task schema)),
                           world = w\<rparr> self task schema)
                      = fst (validate_store s self task schema)))"
proof -
  from validate_store_eq [OF i o, of task schema] obtain x w'
    where run: "validate_store s self task schema
                  = (TaskDefinition_validate (load (objects s) self) (as_task (world s) task)
                       schema,
                     \<lparr>objects = objects s @ [x], world = w'\<rparr>)"
    by blast
  have l: "load (objects s @ [x]) self = load (objects s) self"
    by (rule load_append [OF i o])
  have kept: "world (snd (validate_store s self task schema)) = world s"
    if effect_free: "\<forall>c d w. task_param_schema task = Some c \<longrightarrow> snd (c d w) = w"
  proof -
    from effect_free
    have "\<forall>c d. task_param_schema task = Some c \<longrightarrow> snd (c d (world s)) = world s"
      by blast
    then show ?thesis by (rule validate_store_world)
  qed
  have again: "fst (validate_store \<lparr>objects = objects s @ [x], world = w\<rparr> self task schema)
                 = TaskDefinition_validate (load (objects s) self) (as_task (world s) task) schema"
    if deterministic:
      "\<forall>c d w w'. task_param_schema task = Some c \<longrightarrow> fst (c d w) = fst (c d w')"
    for w
  proof -
    let ?s' = "\<lparr>objects = objects s @ [x], world = w\<rparr>"
    have i': "inputs_at self < length (objects ?s')" and o': "outputs_at self < length (objects ?s')"
      using i o by simp_all
    from validate_store_eq [OF i' o', of task schema]
    have "fst (validate_store ?s' self task schema)
            = TaskDefinition_validate (load (objects ?s') self) (as_task (world ?s') task) schema"
      by auto
    then show ?thesis
      using l as_task_deterministic [OF deterministic, of w "world s"] by simp
  qed
  show ?thesis
  proof (intro conjI impI allI)
    show "take (length (objects s)) (objects (snd (validate_store s self task schema)))
            = objects s"
      unfolding run by simp
    show "load (objects (snd (validate_store s self task schema))) self = load (objects s) self"
      unfolding run using l by simp
    show "fst (validate_store s self task schema)
            = TaskDefinition_validate (load (objects s) self) (as_task (world s) task) schema"
      unfolding run by simp
    show "world (snd (validate_store s self task schema)) = world s"
      if "\<forall>c d w. task_param_schema task = Some c \<longrightarrow> snd (c d w) = w"
      using that by (rule kept)
    show "fst (validate_store
                 \<lparr>objects = objects (snd (validate_store s self task schema)), world = w\<rparr>
                 self task schema)
            = fst (validate_store s self task schema)"
      if "\<forall>c d w w'. task_param_schema task = Some c \<longrightarrow> fst (c d w) = fst (c d w')" for w
      using again [OF that, of w] unfolding run by simp
  qed
qed

theorem validate_pure_idempotent_witness:
  "inputs_at train_object < length (objects train_state)
   \<and> outputs_at train_object < length (objects train_state)
   \<and> fst (validate_store train_state train_object train_task_obj train_schema)
       = Inr \<lparr>inputs = {''x''}, outputs = {''y''}, params = Some [(''lr'', 1)],
              TaskDefinition.name = ''train''\<rparr>
   \<and> fst (validate_store
             (snd (validate_store train_state train_object train_task_obj train_schema))
             train_object train_task_obj train_schema)
       = Inr \<lparr>inputs = {''x''}, outputs = {''y''}, params = Some [(''lr'', 1)],
              TaskDefinition.name = ''train''\<rparr>
   \<and> take 2 (objects (snd (validate_store train_state train_object train_task_obj
                              train_schema)))
       = objects train_state
   \<and> world (snd (validate_store train_state train_object train_task_obj train_schema)) = 0"
proof -
  have i: "inputs_at train_object < length (objects train_state)"
    unfolding train_object_def train_state_def by simp
  have o: "outputs_at train_object < length (objects train_state)"
    unfolding train_object_def train_state_def by simp
  have e: "\<forall>c d w. task_param_schema train_task_obj = Some c \<longrightarrow> snd (c d w) = w"
    unfolding train_task_obj_def by auto
  have d: "\<forall>c d w w'. task_param_schema train_task_obj = Some c \<longrightarrow> fst (c d w) = fst (c d w')"
    unfolding train_task_obj_def by auto
  have r: "fst (validate_store train_state train_object train_task_obj train_schema)
           = Inr \<lparr>inputs = {''x''}, outputs = {''y''}, params = Some [(''lr'', 1)],
                  TaskDefinition.name = ''train''\<rparr>"
    unfolding validate_store_def Let_def new_set_def set_remove_def set_discard_def
      train_state_def train_object_def train_task_obj_def
    by simp
  have n: "length (objects train_state) = 2" "world train_state = 0"
    unfolding train_state_def by simp_all
  note inst = validate_pure_idempotent [OF i o, of train_task_obj train_schema]
  let ?s' = "snd (validate_store train_state train_object train_task_obj train_schema)"
  from inst e have w: "world ?s' = world train_state"
    by blast
  then have s': "?s' = \<lparr>objects = objects ?s', world = world train_state\<rparr>"
    by simp
  from inst d
  have "fst (validate_store \<lparr>objects = objects ?s', world = world train_state\<rparr>
               train_object train_task_obj train_schema)
          = fst (validate_store train_state train_object train_task_obj train_schema)"
    by blast
  with s' have again: "fst (validate_store ?s' train_object train_task_obj train_schema)
          = fst (validate_store train_state train_object train_task_obj train_schema)"
    by simp
  from inst have frame: "take (length (objects train_state)) (objects ?s') = objects train_state"
    by blast
  show ?thesis
    using i o r n again frame w by simp
qed

text \<open>
  C8 as the specification states it fails: with the class of \<open>counting_task\<close>, whose
  instances take a field from a factory that steps a counter, the first run returns a
  definition, the second run, on the state the first one left, returns a definition
  too, and the two are not equal; and the first run leaves the counter changed.
\<close>

theorem validate_twice_counterexample:
  "fst (validate_store train_state train_object counting_task train_schema)
     = Inr \<lparr>inputs = {''x''}, outputs = {''y''}, params = Some 0,
            TaskDefinition.name = ''train''\<rparr>
   \<and> fst (validate_store
             (snd (validate_store train_state train_object counting_task train_schema))
             train_object counting_task train_schema)
     = Inr \<lparr>inputs = {''x''}, outputs = {''y''}, params = Some 1,
            TaskDefinition.name = ''train''\<rparr>
   \<and> fst (validate_store
             (snd (validate_store train_state train_object counting_task train_schema))
             train_object counting_task train_schema)
     \<noteq> fst (validate_store train_state train_object counting_task train_schema)
   \<and> world (snd (validate_store train_state train_object counting_task train_schema))
     \<noteq> world train_state"
proof -
  have first: "validate_store train_state train_object counting_task train_schema
     = (Inr \<lparr>inputs = {''x''}, outputs = {''y''}, params = Some 0,
              TaskDefinition.name = ''train''\<rparr>,
        \<lparr>objects = [{''x''}, {''y''}, {''x''}], world = 1\<rparr>)"
    unfolding validate_store_def Let_def new_set_def set_remove_def set_discard_def
      train_state_def train_object_def counting_task_def
    by auto
  have second: "validate_store \<lparr>objects = [{''x''}, {''y''}, {''x''}], world = 1\<rparr>
                  train_object counting_task train_schema
     = (Inr \<lparr>inputs = {''x''}, outputs = {''y''}, params = Some 1,
              TaskDefinition.name = ''train''\<rparr>,
        \<lparr>objects = [{''x''}, {''y''}, {''x''}, {''x''}], world = 2\<rparr>)"
    unfolding validate_store_def Let_def new_set_def set_remove_def set_discard_def
      train_object_def counting_task_def
    by auto
  show ?thesis
    unfolding first using second by (simp add: train_state_def)
qed

end
